theory Spec2Isabelle
  imports Main
begin

section \<open>JSON values and user documents\<close>

text \<open>
  Request bodies, token payloads and response bodies are JSON. An object is an association
  list; \<open>map_of obj k = None\<close> is JavaScript's \<open>obj.k === undefined\<close>.
\<close>

datatype json =
    JNull
  | JBool bool
  | JNum int
  | JStr string
  | JArr "json list"
  | JObj "(string \<times> json) list"

type_synonym obj = "(string \<times> json) list"

text \<open>
  Modelled from the spec: the user schema (\<open>models.js\<close>) is absent. The fields are the ones
  \<open>index.js\<close> writes in \<open>Users.create\<close> and \<open>$push\<close> (lines 108-113, 242) and the spec's data
  model lists: \<open>Password\<close> holds the stored hash.
\<close>

record user =
  Username :: string
  Password :: string
  Email :: string
  Birthday :: "string option"
  FavoriteMovies :: "string list"

text \<open>
  Modelled from the spec: the schema's serialisation (\<open>models.js\<close>) is absent. Section 4.2:
  the identity goes onward without the password hash; the other fields of the data model
  are serialised. An unset birthday is left out, as \<open>undefined\<close> is.
\<close>

definition toJSON :: "user \<Rightarrow> obj" where
  "toJSON u =
     [(''Username'', JStr (Username u)),
      (''Email'', JStr (Email u))]
     @ (case Birthday u of None \<Rightarrow> [] | Some b \<Rightarrow> [(''Birthday'', JStr b)])
     @ [(''FavoriteMovies'', JArr (map JStr (FavoriteMovies u)))]"

definition docJSON :: "user option \<Rightarrow> json" where
  "docJSON d = (case d of None \<Rightarrow> JNull | Some u \<Rightarrow> JObj (toJSON u))"

section \<open>Tokens\<close>

text \<open>
  A token carries the registered claims \<open>sub\<close>, \<open>iat\<close>, \<open>exp\<close>, the remaining payload and a
  signature over all of them. The keyed signature function (HS256) is a parameter \<open>mac\<close>.
\<close>

type_synonym signing_input = "string \<times> int \<times> int \<times> obj"

record 'sig token =
  subject :: string
  issuedAt :: int
  expiresAt :: int
  claims :: obj
  signature :: 'sig

definition signingInput :: "'sig token \<Rightarrow> signing_input" where
  "signingInput t = (subject t, issuedAt t, expiresAt t, claims t)"

datatype sign_error = BadSubjectOption | ClaimAlreadyInPayload | BadPayload

text \<open>
  The library call \<open>jwt.sign(payload, secret, {subject, expiresIn, algorithm: 'HS256'})\<close> on
  an object payload, with the clock passed in as epoch seconds. It throws when the subject
  option is not a string, when the payload already has \<open>sub\<close> or \<open>exp\<close>, and when \<open>iat\<close> is not
  a number; the issue time is \<open>payload.iat || now\<close>.
\<close>

definition timestampOf :: "obj \<Rightarrow> int \<Rightarrow> int option" where
  "timestampOf payload now =
     (case map_of payload ''iat'' of
        None \<Rightarrow> Some now
      | Some (JNum n) \<Rightarrow> Some (if n = 0 then now else n)
      | Some _ \<Rightarrow> None)"

definition jwt_sign ::
  "(string \<Rightarrow> signing_input \<Rightarrow> 'sig) \<Rightarrow> obj \<Rightarrow> string \<Rightarrow> json option \<Rightarrow> int \<Rightarrow> int
     \<Rightarrow> sign_error + 'sig token" where
  "jwt_sign hmac payload secret subj expiresIn now =
     (case subj of
        Some (JStr s) \<Rightarrow>
          (if map_of payload ''sub'' \<noteq> None then Inl ClaimAlreadyInPayload
           else if map_of payload ''exp'' \<noteq> None then Inl ClaimAlreadyInPayload
           else (case timestampOf payload now of
                   None \<Rightarrow> Inl BadPayload
                 | Some t \<Rightarrow>
                     (let rest = filter (\<lambda>kv. fst kv \<noteq> ''iat'') payload;
                          inp = (s, t, t + expiresIn, rest)
                      in Inr \<lparr> subject = s, issuedAt = t, expiresAt = t + expiresIn,
                               claims = rest, signature = hmac secret inp \<rparr>)))
      | _ \<Rightarrow> Inl BadSubjectOption)"

text \<open>\<open>auth.js\<close>, line 4.\<close>

definition jwtSecret :: string where
  "jwtSecret = ''your_jwt_secret''"

text \<open>\<open>expiresIn: '7d'\<close> in seconds.\<close>

definition sevenDays :: int where
  "sevenDays = 7 * 24 * 60 * 60"

text \<open>\<open>auth.js\<close>, lines 17-23: the payload is the user object, the subject its \<open>Username\<close>.\<close>

definition generateJWTToken ::
  "(string \<Rightarrow> signing_input \<Rightarrow> 'sig) \<Rightarrow> obj \<Rightarrow> int \<Rightarrow> sign_error + 'sig token" where
  "generateJWTToken hmac usr now =
     jwt_sign hmac usr jwtSecret (map_of usr ''Username'') sevenDays now"

section \<open>The store and the collaborators\<close>

text \<open>
  The collaborators the code only consumes are parameters: the signature function, the
  password hasher's \<open>verify(plaintext, digest)\<close>, whether the mapper drops a filter condition
  whose value is \<open>undefined\<close> (otherwise it asks for a null field, which no user document
  has), the mapper's cast of a \<open>$set\<close> document, and its match of a movie document against
  one filter condition (the movie schema is absent).
\<close>

record 'sig env =
  mac :: "string \<Rightarrow> signing_input \<Rightarrow> 'sig"
  verifyPassword :: "string \<Rightarrow> string \<Rightarrow> bool"
  dropsUndefined :: bool
  castSet :: "(string \<times> json option) list \<Rightarrow> user \<Rightarrow> user"
  movieMatches :: "string \<Rightarrow> string option \<Rightarrow> obj \<Rightarrow> bool"

text \<open>
  The database: the two collections, and \<open>fault\<close>, the error every store call rejects with
  while the store is unreachable.
\<close>

record db =
  Users :: "user list"
  Movies :: "obj list"
  fault :: "string option"

definition userFilter :: "'sig env \<Rightarrow> string option \<Rightarrow> user \<Rightarrow> bool" where
  "userFilter env v u = (case v of Some n \<Rightarrow> Username u = n | None \<Rightarrow> dropsUndefined env)"

fun removeFirst :: "('a \<Rightarrow> bool) \<Rightarrow> 'a list \<Rightarrow> 'a list" where
  "removeFirst P [] = []"
| "removeFirst P (x # xs) = (if P x then xs else x # removeFirst P xs)"

fun updateFirst :: "('a \<Rightarrow> bool) \<Rightarrow> ('a \<Rightarrow> 'a) \<Rightarrow> 'a list \<Rightarrow> 'a list" where
  "updateFirst P f [] = []"
| "updateFirst P f (x # xs) = (if P x then f x # xs else x # updateFirst P f xs)"

definition Users_find :: "db \<Rightarrow> string + user list" where
  "Users_find d = (case fault d of Some e \<Rightarrow> Inl e | None \<Rightarrow> Inr (Users d))"

definition Users_findOne :: "'sig env \<Rightarrow> string option \<Rightarrow> db \<Rightarrow> string + user option" where
  "Users_findOne env v d =
     (case fault d of Some e \<Rightarrow> Inl e | None \<Rightarrow> Inr (find (userFilter env v) (Users d)))"

text \<open>With \<open>{new: true}\<close> the updated document is returned.\<close>

definition Users_findOneAndUpdate ::
  "'sig env \<Rightarrow> string option \<Rightarrow> (user \<Rightarrow> user) \<Rightarrow> db \<Rightarrow> (string + user option) \<times> db" where
  "Users_findOneAndUpdate env v f d =
     (case fault d of
        Some e \<Rightarrow> (Inl e, d)
      | None \<Rightarrow> (Inr (map_option f (find (userFilter env v) (Users d))),
                 d\<lparr>Users := updateFirst (userFilter env v) f (Users d)\<rparr>))"

text \<open>
  \<open>findOneAndRemove(conditions, options)\<close> deletes the first matching document and returns
  it; its second argument is an options object, so an update operator placed there does
  nothing.
\<close>

definition Users_findOneAndRemove ::
  "'sig env \<Rightarrow> string option \<Rightarrow> db \<Rightarrow> (string + user option) \<times> db" where
  "Users_findOneAndRemove env v d =
     (case fault d of
        Some e \<Rightarrow> (Inl e, d)
      | None \<Rightarrow> (Inr (find (userFilter env v) (Users d)),
                 d\<lparr>Users := removeFirst (userFilter env v) (Users d)\<rparr>))"

definition Movies_find :: "db \<Rightarrow> string + obj list" where
  "Movies_find d = (case fault d of Some e \<Rightarrow> Inl e | None \<Rightarrow> Inr (Movies d))"

definition Movies_findOne ::
  "'sig env \<Rightarrow> string \<times> string option \<Rightarrow> db \<Rightarrow> string + obj option" where
  "Movies_findOne env q d =
     (case fault d of
        Some e \<Rightarrow> Inl e
      | None \<Rightarrow> Inr (find (movieMatches env (fst q) (snd q)) (Movies d)))"

section \<open>Authentication and token verification\<close>

datatype auth_error =
    NotFound
  | InvalidCredentials
  | StoreUnavailable string
  | MalformedToken
  | BadSignature
  | Expired

text \<open>
  Modelled from the spec: the local strategy (\<open>passport.js\<close>) is absent. Section 4.2: look
  the record up by username, fail with \<open>NotFound\<close> when none matches, with
  \<open>InvalidCredentials\<close> when the hasher rejects the plaintext, return the identity otherwise;
  a failed store call is \<open>StoreUnavailable\<close> (section 5).
\<close>

definition authenticate ::
  "'sig env \<Rightarrow> db \<Rightarrow> string \<Rightarrow> string \<Rightarrow> auth_error + user" where
  "authenticate env d username plaintext =
     (case Users_findOne env (Some username) d of
        Inl e \<Rightarrow> Inl (StoreUnavailable e)
      | Inr None \<Rightarrow> Inl NotFound
      | Inr (Some u) \<Rightarrow>
          (if verifyPassword env plaintext (Password u) then Inr u
           else Inl InvalidCredentials))"

text \<open>
  A bearer credential either does not parse into header, payload and signature, or is the
  encoding of a token.
\<close>

datatype 'sig presented = Garbled string | Encoded "'sig token"

text \<open>
  Modelled from the spec: the bearer strategy (\<open>passport.js\<close>) is absent. Section 4.4, in
  the order it lists the failures: \<open>MalformedToken\<close>, \<open>BadSignature\<close> under the current
  secret, \<open>Expired\<close> when the current time is at or after \<open>expiresAt\<close>; \<open>verifyToken\<close> yields
  the subject, \<open>verify\<close> resolves it with a second store lookup.
\<close>

definition verifyToken :: "'sig env \<Rightarrow> int \<Rightarrow> 'sig presented \<Rightarrow> auth_error + string" where
  "verifyToken env now c =
     (case c of
        Garbled s \<Rightarrow> Inl MalformedToken
      | Encoded t \<Rightarrow>
          (if signature t \<noteq> mac env jwtSecret (signingInput t) then Inl BadSignature
           else if expiresAt t \<le> now then Inl Expired
           else Inr (subject t)))"

text \<open>
  Modelled from the spec: the identity resolution of the absent bearer strategy. Section
  4.4: on success the subject is looked up in the store again, and a token whose user is
  gone is rejected with \<open>NotFound\<close>.
\<close>

definition verify :: "'sig env \<Rightarrow> db \<Rightarrow> int \<Rightarrow> 'sig presented \<Rightarrow> auth_error + user" where
  "verify env d now c =
     (case verifyToken env now c of
        Inl e \<Rightarrow> Inl e
      | Inr s \<Rightarrow>
          (case Users_findOne env (Some s) d of
             Inl e \<Rightarrow> Inl (StoreUnavailable e)
           | Inr None \<Rightarrow> Inl NotFound
           | Inr (Some u) \<Rightarrow> Inr u))"

section \<open>The login route\<close>

datatype 'sig body = Text string | Json json | UserAndToken json "'sig token"

type_synonym 'sig response = "nat \<times> 'sig body"

text \<open>
  What the authentication library hands to a custom callback as \<open>user\<close>: nothing when the
  strategy raised an error, \<open>false\<close> when it rejected the credentials, the document when it
  accepted them.
\<close>

datatype cb_user = UserUndefined | UserFalse | UserDoc user

text \<open>
  Modelled from the spec: the absent local strategy is \<open>authenticate\<close>; the library turns
  its outcome into the arguments of the callback, an error for a failed store call, \<open>false\<close>
  for rejected credentials.
\<close>

definition passport_local ::
  "'sig env \<Rightarrow> db \<Rightarrow> string \<Rightarrow> string \<Rightarrow> string option \<times> cb_user" where
  "passport_local env d username password =
     (case authenticate env d username password of
        Inr u \<Rightarrow> (None, UserDoc u)
      | Inl (StoreUnavailable e) \<Rightarrow> (Some e, UserUndefined)
      | Inl _ \<Rightarrow> (None, UserFalse))"

fun truthy :: "cb_user \<Rightarrow> bool" where
  "truthy (UserDoc u) = True"
| "truthy _ = False"

text \<open>\<open>{message: ..., user: user}\<close> as JSON: a key whose value is \<open>undefined\<close> is left out.\<close>

fun userField :: "cb_user \<Rightarrow> obj" where
  "userField UserUndefined = []"
| "userField UserFalse = [(''user'', JBool False)]"
| "userField (UserDoc u) = [(''user'', JObj (toJSON u))]"

text \<open>
  \<open>auth.js\<close>, lines 36-51, the callback given to the local strategy. \<open>req.login\<close> with
  \<open>{session: false}\<close> only sets \<open>req.user\<close> and calls back without an error, so line 47 is
  not reached. A throw of \<open>generateJWTToken\<close> leaves the request without a response
  (\<open>None\<close>).
\<close>

definition login_callback ::
  "'sig env \<Rightarrow> int \<Rightarrow> string option \<Rightarrow> cb_user \<Rightarrow> 'sig response option" where
  "login_callback env now error usr =
     (if error \<noteq> None \<or> \<not> truthy usr then
        Some (400, Json (JObj ((''message'', JStr ''Something is not right'') # userField usr)))
      else
        (case usr of
           UserDoc u \<Rightarrow>
             (case generateJWTToken (mac env) (toJSON u) now of
                Inl e \<Rightarrow> None
              | Inr token \<Rightarrow> Some (200, UserAndToken (JObj (toJSON u)) token))
         | _ \<Rightarrow> None))"

definition login ::
  "'sig env \<Rightarrow> int \<Rightarrow> db \<Rightarrow> string \<Rightarrow> string \<Rightarrow> 'sig response option" where
  "login env now d username password =
     (case passport_local env d username password of
        (error, usr) \<Rightarrow> login_callback env now error usr)"

section \<open>Requests and the route guard\<close>

record 'sig request =
  req_params :: "(string \<times> string) list"
  req_body :: obj
  req_bearer :: "'sig presented option"
  req_user :: "user option"

type_synonym 'sig result = "'sig response option \<times> db"

definition unauthorized :: "'sig response" where
  "unauthorized = (401, Text ''Unauthorized'')"

text \<open>
  Modelled from the spec: \<open>passport.authenticate('jwt', {session: false})\<close> with the absent
  bearer strategy. Section 4.5: verification runs on the bearer credential before the
  wrapped operation; a missing credential or a verification failure ends the request with
  the unauthorized response, a store failure with a server error (section 7); on success
  the identity is attached to the request and the operation runs.
\<close>

definition passport_jwt ::
  "'sig env \<Rightarrow> int \<Rightarrow> ('sig request \<Rightarrow> db \<Rightarrow> 'sig result) \<Rightarrow> 'sig request \<Rightarrow> db
     \<Rightarrow> 'sig result" where
  "passport_jwt env now handler req d =
     (case req_bearer req of
        None \<Rightarrow> (Some unauthorized, d)
      | Some c \<Rightarrow>
          (case verify env d now c of
             Inl (StoreUnavailable e) \<Rightarrow> (Some (500, Text ''Internal Server Error''), d)
           | Inl _ \<Rightarrow> (Some unauthorized, d)
           | Inr u \<Rightarrow> handler (req\<lparr>req_user := Some u\<rparr>) d))"

section \<open>The protected routes of \<open>index.js\<close>\<close>

datatype endpoint =
    GetUsers
  | GetUser
  | PutUser
  | GetMovies
  | GetMovieByTitle
  | GetMovieByGenre
  | GetMovieByDirector
  | PostFavorite
  | DeleteFavorite
  | DeleteUser

text \<open>The parameter names each route pattern declares, in path order.\<close>

fun paramNames :: "endpoint \<Rightarrow> string list" where
  "paramNames GetUsers = []"
| "paramNames GetUser = [''username'']"
| "paramNames PutUser = [''username'']"
| "paramNames GetMovies = []"
| "paramNames GetMovieByTitle = [''title'']"
| "paramNames GetMovieByGenre = [''Genre'', ''Description'']"
| "paramNames GetMovieByDirector = [''Director'']"
| "paramNames PostFavorite = [''Username'', ''MovieId'']"
| "paramNames DeleteFavorite = [''Username'', ''MovieId'']"
| "paramNames DeleteUser = [''Username'']"

text \<open>\<open>req.params\<close> of a request routed to an endpoint with the given path values.\<close>

definition bindParams :: "endpoint \<Rightarrow> string list \<Rightarrow> (string \<times> string) list" where
  "bindParams ep vals = zip (paramNames ep) vals"

definition serverError :: "string \<Rightarrow> 'sig response" where
  "serverError e = (500, Text (''Error: '' @ e))"

text \<open>String concatenation with a parameter that may be \<open>undefined\<close>.\<close>

definition paramText :: "string option \<Rightarrow> string" where
  "paramText v = (case v of None \<Rightarrow> ''undefined'' | Some s \<Rightarrow> s)"

text \<open>Lines 125-133.\<close>

definition getUsers :: "'sig env \<Rightarrow> 'sig request \<Rightarrow> db \<Rightarrow> 'sig result" where
  "getUsers env req d =
     (case Users_find d of
        Inr us \<Rightarrow> (Some (200, Json (JArr (map (\<lambda>u. JObj (toJSON u)) us))), d)
      | Inl e \<Rightarrow> (Some (serverError e), d))"

text \<open>Lines 138-150.\<close>

definition getUser :: "'sig env \<Rightarrow> 'sig request \<Rightarrow> db \<Rightarrow> 'sig result" where
  "getUser env req d =
     (case Users_findOne env (map_of (req_params req) ''username'') d of
        Inr None \<Rightarrow> (Some (404, Text ''User not found''), d)
      | Inr (Some u) \<Rightarrow> (Some (200, Json (JObj (toJSON u))), d)
      | Inl e \<Rightarrow> (Some (serverError e), d))"

text \<open>
  Lines 155-179. The validators in front of the handler only record their findings, and
  the handler never reads them. Reading \<open>req.user.Username\<close> without a user throws.
\<close>

definition putUser :: "'sig env \<Rightarrow> 'sig request \<Rightarrow> db \<Rightarrow> 'sig result" where
  "putUser env req d =
     (case req_user req of
        None \<Rightarrow> (None, d)
      | Some me \<Rightarrow>
          (if Some (Username me) \<noteq> map_of (req_params req) ''username'' then
             (Some (403, Text ''Permission denied''), d)
           else
             (case Users_findOneAndUpdate env (map_of (req_params req) ''username'')
                     (castSet env
                        [(''Username'', map_of (req_body req) ''Username''),
                         (''Password'', map_of (req_body req) ''Password''),
                         (''Email'', map_of (req_body req) ''Email''),
                         (''Birthday'', map_of (req_body req) ''Birthday'')]) d of
                (Inr updatedUser, d') \<Rightarrow> (Some (200, Json (docJSON updatedUser)), d')
              | (Inl e, d') \<Rightarrow> (Some (serverError e), d'))))"

text \<open>Lines 184-193.\<close>

definition getMovies :: "'sig env \<Rightarrow> 'sig request \<Rightarrow> db \<Rightarrow> 'sig result" where
  "getMovies env req d =
     (case Movies_find d of
        Inr ms \<Rightarrow> (Some (201, Json (JArr (map JObj ms))), d)
      | Inl e \<Rightarrow> (Some (serverError e), d))"

definition movieJSON :: "obj option \<Rightarrow> json" where
  "movieJSON m = (case m of None \<Rightarrow> JNull | Some x \<Rightarrow> JObj x)"

text \<open>The common shape of the three single-movie handlers: the query, then the response.\<close>

definition respondMovie ::
  "'sig env \<Rightarrow> string \<times> string option \<Rightarrow> db \<Rightarrow> 'sig result" where
  "respondMovie env q d =
     (case Movies_findOne env q d of
        Inr movie \<Rightarrow> (Some (200, Json (movieJSON movie)), d)
      | Inl e \<Rightarrow> (Some (serverError e), d))"

text \<open>Line 199: \<open>{ Title: req.params.Title }\<close>.\<close>

definition movieByTitle_query :: "'sig request \<Rightarrow> string \<times> string option" where
  "movieByTitle_query req = (''Title'', map_of (req_params req) ''Title'')"

definition getMovieByTitle :: "'sig env \<Rightarrow> 'sig request \<Rightarrow> db \<Rightarrow> 'sig result" where
  "getMovieByTitle env req d = respondMovie env (movieByTitle_query req) d"

text \<open>Line 213: \<open>{ Genre: req.params.Title }\<close>.\<close>

definition movieByGenre_query :: "'sig request \<Rightarrow> string \<times> string option" where
  "movieByGenre_query req = (''Genre'', map_of (req_params req) ''Title'')"

definition getMovieByGenre :: "'sig env \<Rightarrow> 'sig request \<Rightarrow> db \<Rightarrow> 'sig result" where
  "getMovieByGenre env req d = respondMovie env (movieByGenre_query req) d"

text \<open>Line 227: \<open>{ Director: req.params.Title }\<close>.\<close>

definition movieByDirector_query :: "'sig request \<Rightarrow> string \<times> string option" where
  "movieByDirector_query req = (''Director'', map_of (req_params req) ''Title'')"

definition getMovieByDirector :: "'sig env \<Rightarrow> 'sig request \<Rightarrow> db \<Rightarrow> 'sig result" where
  "getMovieByDirector env req d = respondMovie env (movieByDirector_query req) d"

text \<open>Lines 240-251: \<open>$push\<close> appends the movie identifier to the favourites.\<close>

definition pushFavorite :: "string option \<Rightarrow> user \<Rightarrow> user" where
  "pushFavorite v u =
     (case v of None \<Rightarrow> u | Some m \<Rightarrow> u\<lparr>FavoriteMovies := FavoriteMovies u @ [m]\<rparr>)"

definition postFavorite :: "'sig env \<Rightarrow> 'sig request \<Rightarrow> db \<Rightarrow> 'sig result" where
  "postFavorite env req d =
     (case Users_findOneAndUpdate env (map_of (req_params req) ''Username'')
             (pushFavorite (map_of (req_params req) ''MovieId'')) d of
        (Inr updatedUser, d') \<Rightarrow> (Some (200, Json (docJSON updatedUser)), d')
      | (Inl e, d') \<Rightarrow> (Some (serverError e), d'))"

text \<open>Lines 256-267: the call is \<open>findOneAndRemove\<close>, with the \<open>$pull\<close> in its options.\<close>

definition deleteFavorite :: "'sig env \<Rightarrow> 'sig request \<Rightarrow> db \<Rightarrow> 'sig result" where
  "deleteFavorite env req d =
     (case Users_findOneAndRemove env (map_of (req_params req) ''Username'') d of
        (Inr updatedUser, d') \<Rightarrow> (Some (200, Json (docJSON updatedUser)), d')
      | (Inl e, d') \<Rightarrow> (Some (serverError e), d'))"

text \<open>Lines 272-285.\<close>

definition deleteUser :: "'sig env \<Rightarrow> 'sig request \<Rightarrow> db \<Rightarrow> 'sig result" where
  "deleteUser env req d =
     (case req_user req of
        None \<Rightarrow> (None, d)
      | Some me \<Rightarrow>
          (if Some (Username me) \<noteq> map_of (req_params req) ''Username'' then
             (Some (403, Text ''Permission denied''), d)
           else
             (case Users_findOneAndRemove env (map_of (req_params req) ''Username'') d of
                (Inr None, d') \<Rightarrow>
                  (Some (404, Text (paramText (map_of (req_params req) ''Username'')
                                     @ '' was not found'')), d')
              | (Inr (Some u), d') \<Rightarrow>
                  (Some (200, Text (paramText (map_of (req_params req) ''Username'')
                                     @ '' was deleted'')), d')
              | (Inl e, d') \<Rightarrow> (Some (serverError e), d'))))"

text \<open>Every route above is registered behind the guard.\<close>

fun app :: "'sig env \<Rightarrow> int \<Rightarrow> endpoint \<Rightarrow> 'sig request \<Rightarrow> db \<Rightarrow> 'sig result" where
  "app env now GetUsers = passport_jwt env now (getUsers env)"
| "app env now GetUser = passport_jwt env now (getUser env)"
| "app env now PutUser = passport_jwt env now (putUser env)"
| "app env now GetMovies = passport_jwt env now (getMovies env)"
| "app env now GetMovieByTitle = passport_jwt env now (getMovieByTitle env)"
| "app env now GetMovieByGenre = passport_jwt env now (getMovieByGenre env)"
| "app env now GetMovieByDirector = passport_jwt env now (getMovieByDirector env)"
| "app env now PostFavorite = passport_jwt env now (postFavorite env)"
| "app env now DeleteFavorite = passport_jwt env now (deleteFavorite env)"
| "app env now DeleteUser = passport_jwt env now (deleteUser env)"

section \<open>The update the favourites route names\<close>

text \<open>
  The \<open>$pull\<close> document of lines 257-259, as an update of one user: every occurrence of the
  movie identifier leaves \<open>FavoriteMovies\<close>, the other fields stay. The handler never
  applies it; it is here to be compared with what the handler does.
\<close>

definition pullFavorite :: "string \<Rightarrow> user \<Rightarrow> user" where
  "pullFavorite m u = u\<lparr>FavoriteMovies := filter (\<lambda>x. x \<noteq> m) (FavoriteMovies u)\<rparr>"

section \<open>A concrete deployment\<close>

text \<open>
  Concrete collaborators and a two-user store, on which the results below are evaluated:
  the signature is the pair of key and signed content, a digest is the plaintext behind a
  prefix.
\<close>

definition env0 :: "(string \<times> signing_input) env" where
  "env0 = \<lparr> mac = (\<lambda>k inp. (k, inp)),
            verifyPassword = (\<lambda>p h. h = ''hash:'' @ p),
            dropsUndefined = False,
            castSet = (\<lambda>s u. u),
            movieMatches = (\<lambda>f v m. case v of None \<Rightarrow> False
                                        | Some x \<Rightarrow> map_of m f = Some (JStr x)) \<rparr>"

definition alice :: user where
  "alice = \<lparr> Username = ''alice12'', Password = ''hash:Secr3t!'',
             Email = ''alice@example.org'', Birthday = None, FavoriteMovies = [''m1''] \<rparr>"

definition bob :: user where
  "bob = \<lparr> Username = ''bob99'', Password = ''hash:hunter2'',
           Email = ''bob@example.org'', Birthday = Some ''1990-01-01'', FavoriteMovies = [] \<rparr>"

definition db0 :: db where
  "db0 = \<lparr> Users = [alice, bob],
           Movies = [[(''Title'', JStr ''Heat''), (''Genre'', JStr ''Thriller''),
                      (''Director'', JStr ''Michael Mann'')]],
           fault = None \<rparr>"

definition dbDown :: db where
  "dbDown = \<lparr> Users = [alice, bob], Movies = [], fault = Some ''ECONNREFUSED'' \<rparr>"

definition aliceJSON :: obj where
  "aliceJSON = [(''Username'', JStr ''alice12''),
                (''Email'', JStr ''alice@example.org''),
                (''FavoriteMovies'', JArr [JStr ''m1''])]"

text \<open>The token \<open>generateJWTToken\<close> issues for \<open>alice\<close> at second 1000.\<close>

definition aliceToken :: "(string \<times> signing_input) token" where
  "aliceToken = \<lparr> subject = ''alice12'', issuedAt = 1000, expiresAt = 605800,
                  claims = aliceJSON,
                  signature = (''your_jwt_secret'', ''alice12'', 1000, 605800, aliceJSON) \<rparr>"

definition reqAlice :: "(string \<times> signing_input) request" where
  "reqAlice = \<lparr> req_params = [], req_body = [(''Username'', JStr ''mallory'')],
                req_bearer = Some (Encoded aliceToken), req_user = None \<rparr>"

definition reqGarbled :: "(string \<times> signing_input) request" where
  "reqGarbled = \<lparr> req_params = [], req_body = [],
                  req_bearer = Some (Garbled ''not.a.token''), req_user = None \<rparr>"

section \<open>Auxiliary facts\<close>

lemma Users_findOne_SomeD:
  "Users_findOne env (Some n) d = Inr (Some u) \<Longrightarrow>
     fault d = None \<and> Username u = n \<and> u \<in> set (Users d)"
  by (auto simp: Users_findOne_def find_Some_iff userFilter_def split: option.splits
      intro: nth_mem)

lemma userFilter_Some: "userFilter env (Some n) = (\<lambda>x. Username x = n)"
  by (simp add: userFilter_def fun_eq_iff)

lemma toJSON_keys:
  "map_of (toJSON u) ''sub'' = None"
  "map_of (toJSON u) ''exp'' = None"
  "map_of (toJSON u) ''iat'' = None"
  "map_of (toJSON u) ''Username'' = Some (JStr (Username u))"
  "map_of (toJSON u) ''Password'' = None"
  by (simp_all add: toJSON_def split: option.splits)

lemma toJSON_filter_iat: "filter (\<lambda>kv. fst kv \<noteq> ''iat'') (toJSON u) = toJSON u"
  by (simp add: toJSON_def split: option.splits)

lemma toJSON_Password_update: "toJSON (u\<lparr>Password := h\<rparr>) = toJSON u"
  by (simp add: toJSON_def)

lemma generateJWTToken_toJSON:
  "generateJWTToken hmac (toJSON u) now =
     Inr \<lparr> subject = Username u, issuedAt = now, expiresAt = now + sevenDays,
           claims = toJSON u,
           signature = hmac jwtSecret (Username u, now, now + sevenDays, toJSON u) \<rparr>"
  by (simp add: generateJWTToken_def jwt_sign_def timestampOf_def toJSON_keys
      toJSON_filter_iat Let_def)

lemma verifyToken_issued:
  "verifyToken env now'
     (Encoded \<lparr> subject = s, issuedAt = i, expiresAt = e, claims = cs,
               signature = mac env jwtSecret (s, i, e, cs) \<rparr>) =
     (if e \<le> now' then Inl Expired else Inr s)"
  by (simp add: verifyToken_def signingInput_def)

lemma passport_jwt_absent:
  "req_bearer req = None \<Longrightarrow> passport_jwt env now h req d = (Some unauthorized, d)"
  by (simp add: passport_jwt_def)

lemma passport_jwt_rejected:
  "req_bearer req = Some c \<Longrightarrow> verify env d now c = Inl e \<Longrightarrow>
     \<forall>x. e \<noteq> StoreUnavailable x \<Longrightarrow>
     passport_jwt env now h req d = (Some unauthorized, d)"
  by (cases e) (simp_all add: passport_jwt_def)

lemma passport_jwt_not_accepted:
  "\<forall>c u. req_bearer req = Some c \<longrightarrow> verify env d now c \<noteq> Inr u \<Longrightarrow>
     passport_jwt env now h req d = passport_jwt env now h' req d"
  by (auto simp: passport_jwt_def split: option.splits sum.splits auth_error.splits)

lemma app_guarded: "\<exists>h. \<forall>req d. app env now ep req d = passport_jwt env now h req d"
  by (cases ep) auto

lemma map_of_bindParams:
  "map_of (bindParams PutUser [p]) ''username'' = Some p"
  "map_of (bindParams DeleteUser [p]) ''Username'' = Some p"
  "map_of (bindParams DeleteFavorite [p, m]) ''Username'' = Some p"
  "map_of (bindParams GetMovieByTitle [t]) ''Title'' = None"
  "map_of (bindParams GetMovieByGenre [g, x]) ''Title'' = None"
  "map_of (bindParams GetMovieByDirector [g]) ''Title'' = None"
  by (simp_all add: bindParams_def)

lemma length_removeFirst:
  "find P xs = Some x \<Longrightarrow> Suc (length (removeFirst P xs)) = length xs"
  by (induction xs) (simp_all split: if_splits)

lemma length_updateFirst: "length (updateFirst P f xs) = length xs"
  by (induction xs) simp_all

lemma removeFirst_distinct_gone:
  "distinct (map k xs) \<Longrightarrow> find (\<lambda>x. k x = n) xs = Some y \<Longrightarrow>
     \<forall>x \<in> set (removeFirst (\<lambda>x. k x = n) xs). k x \<noteq> n"
proof (induction xs)
  case Nil
  then show ?case by simp
next
  case (Cons a xs)
  show ?case
  proof (cases "k a = n")
    case True
    have r: "removeFirst (\<lambda>x. k x = n) (a # xs) = xs" using True by simp
    have "k a \<notin> k ` set xs" using Cons.prems(1) by simp
    then have "\<forall>x \<in> set xs. k x \<noteq> n" using True by blast
    then show ?thesis unfolding r .
  next
    case False
    have r: "removeFirst (\<lambda>x. k x = n) (a # xs) = a # removeFirst (\<lambda>x. k x = n) xs"
      using False by simp
    have d: "distinct (map k xs)" using Cons.prems(1) by simp
    have f: "find (\<lambda>x. k x = n) xs = Some y" using Cons.prems(2) False by simp
    from Cons.IH[OF d f] False show ?thesis unfolding r by simp
  qed
qed

text \<open>The concrete deployment, evaluated.\<close>

lemma toJSON_alice: "toJSON alice = aliceJSON"
  unfolding toJSON_def alice_def aliceJSON_def by simp

lemma findOne_alice: "Users_findOne env0 (Some ''alice12'') db0 = Inr (Some alice)"
  by (simp add: Users_findOne_def userFilter_def db0_def alice_def)

lemma findOne_nobody: "Users_findOne env0 (Some ''nobody'') db0 = Inr None"
  by (simp add: Users_findOne_def userFilter_def db0_def alice_def bob_def)

lemma Username_alice: "Username alice = ''alice12''"
  by (simp add: alice_def)

lemma Password_alice: "Password alice = ''hash:Secr3t!''"
  by (simp add: alice_def)

lemma env0_sel:
  "mac env0 k inp = (k, inp)"
  "verifyPassword env0 p h = (h = ''hash:'' @ p)"
  by (simp_all add: env0_def)

lemma issue_alice: "generateJWTToken (mac env0) (toJSON alice) 1000 = Inr aliceToken"
  using generateJWTToken_toJSON[of "mac env0" alice 1000]
  by (simp add: toJSON_alice aliceToken_def sevenDays_def
      jwtSecret_def env0_def Username_alice)

lemma verifyToken_alice:
  "verifyToken env0 now (Encoded aliceToken) =
     (if 605800 \<le> now then Inl Expired else Inr ''alice12'')"
  by (simp add: verifyToken_def signingInput_def aliceToken_def env0_def jwtSecret_def)

lemma verify_alice: "now < 605800 \<Longrightarrow> verify env0 db0 now (Encoded aliceToken) = Inr alice"
  by (simp add: verify_def verifyToken_alice findOne_alice)


lemma authenticate_alice: "authenticate env0 db0 ''alice12'' ''Secr3t!'' = Inr alice"
  by (simp add: authenticate_def findOne_alice env0_sel Password_alice)

lemma authenticate_wrong: "authenticate env0 db0 ''alice12'' ''wrong'' = Inl InvalidCredentials"
  by (simp add: authenticate_def findOne_alice env0_sel Password_alice)

lemma authenticate_down:
  "authenticate env0 dbDown ''alice12'' ''Secr3t!'' = Inl (StoreUnavailable ''ECONNREFUSED'')"
  by (simp add: authenticate_def Users_findOne_def dbDown_def)

lemma verify_garbled: "verify env d now (Garbled s) = Inl MalformedToken"
  by (simp add: verify_def verifyToken_def)

lemma reqAlice_bearer: "req_bearer reqAlice = Some (Encoded aliceToken)"
  by (simp add: reqAlice_def)

lemma reqGarbled_bearer: "req_bearer reqGarbled = Some (Garbled ''not.a.token'')"
  by (simp add: reqGarbled_def)

section \<open>The claims\<close>

text \<open>
  Claim C1. When the store's record for a username is \<open>u\<close> and the hasher accepts the
  password against its stored hash, \<open>authenticate\<close> succeeds with \<open>u\<close>, the login route
  answers with the token issued for \<open>u\<close>, that token's subject is the username, and
  verifying it at any time before its seven days are over succeeds and resolves to the
  same record and username.
\<close>

theorem authenticate_issue_verify_roundtrip:
  assumes "Users_findOne env (Some username) d = Inr (Some u)"
    and "verifyPassword env password (Password u)"
    and "now' < now + sevenDays"
  shows "authenticate env d username password = Inr u
       \<and> (\<exists>tok. generateJWTToken (mac env) (toJSON u) now = Inr tok
             \<and> login env now d username password
                  = Some (200, UserAndToken (JObj (toJSON u)) tok)
             \<and> subject tok = username
             \<and> verify env d now' (Encoded tok) = Inr u)
       \<and> Username u = username"
  using assms Users_findOne_SomeD[OF assms(1)]
  by (simp add: authenticate_def generateJWTToken_toJSON verify_def verifyToken_issued
      login_def passport_local_def login_callback_def)

theorem authenticate_issue_verify_roundtrip_witness:
  "authenticate env0 db0 ''alice12'' ''Secr3t!'' = Inr alice
   \<and> (\<exists>tok. generateJWTToken (mac env0) (toJSON alice) 1000 = Inr tok
         \<and> login env0 1000 db0 ''alice12'' ''Secr3t!''
              = Some (200, UserAndToken (JObj (toJSON alice)) tok)
         \<and> subject tok = ''alice12''
         \<and> verify env0 db0 2000 (Encoded tok) = Inr alice)
   \<and> Username alice = ''alice12''"
proof -
  have h2: "verifyPassword env0 ''Secr3t!'' (Password alice)"
    by (simp add: env0_sel Password_alice)
  have h3: "(2000::int) < 1000 + sevenDays" by (simp add: sevenDays_def)
  show ?thesis by (rule authenticate_issue_verify_roundtrip[OF findOne_alice h2 h3])
qed

text \<open>
  Claim C2. Token verification accepts a presented credential exactly when it is an encoded
  token whose signature verifies under the secret and the current time is strictly before
  \<open>expiresAt\<close>; a well-signed token verified at or after \<open>expiresAt\<close> fails with \<open>Expired\<close>;
  and the token \<open>generateJWTToken\<close> issues at \<open>iat\<close> expires at \<open>iat + 604800\<close>, so it verifies
  one second before seven days have passed and fails with \<open>Expired\<close> one second after.
\<close>

theorem token_valid_iff_signed_and_unexpired:
  "((\<exists>s. verifyToken env now c = Inr s) \<longleftrightarrow>
      (\<exists>t. c = Encoded t \<and> signature t = mac env jwtSecret (signingInput t)
           \<and> now < expiresAt t))
   \<and> (signature t = mac env jwtSecret (signingInput t) \<and> expiresAt t \<le> now \<longrightarrow>
        verifyToken env now (Encoded t) = Inl Expired
        \<and> verify env d now (Encoded t) = Inl Expired)
   \<and> (generateJWTToken (mac env) (toJSON u) iat = Inr tok \<longrightarrow>
        expiresAt tok = iat + 604800
        \<and> verifyToken env (iat + 604800 - 1) (Encoded tok) = Inr (Username u)
        \<and> verifyToken env (iat + 604800 + 1) (Encoded tok) = Inl Expired
        \<and> verify env d (iat + 604800 + 1) (Encoded tok) = Inl Expired
        \<and> (Users_findOne env (Some (Username u)) d = Inr (Some u) \<longrightarrow>
             verify env d (iat + 604800 - 1) (Encoded tok) = Inr u))"
proof (intro conjI impI)
  show "(\<exists>s. verifyToken env now c = Inr s) \<longleftrightarrow>
      (\<exists>t. c = Encoded t \<and> signature t = mac env jwtSecret (signingInput t)
           \<and> now < expiresAt t)"
    by (cases c) (auto simp: verifyToken_def)
next
  assume "signature t = mac env jwtSecret (signingInput t) \<and> expiresAt t \<le> now"
  then show "verifyToken env now (Encoded t) = Inl Expired"
    by (simp add: verifyToken_def)
next
  assume "signature t = mac env jwtSecret (signingInput t) \<and> expiresAt t \<le> now"
  then show "verify env d now (Encoded t) = Inl Expired"
    by (simp add: verify_def verifyToken_def)
next
  assume g: "generateJWTToken (mac env) (toJSON u) iat = Inr tok"
  then have tok: "tok = \<lparr> subject = Username u, issuedAt = iat, expiresAt = iat + sevenDays,
           claims = toJSON u,
           signature = mac env jwtSecret (Username u, iat, iat + sevenDays, toJSON u) \<rparr>"
    by (simp add: generateJWTToken_toJSON)
  show "expiresAt tok = iat + 604800" by (simp add: tok sevenDays_def)
  show "verifyToken env (iat + 604800 - 1) (Encoded tok) = Inr (Username u)"
    unfolding tok by (simp add: verifyToken_issued sevenDays_def)
  show "verifyToken env (iat + 604800 + 1) (Encoded tok) = Inl Expired"
    unfolding tok by (simp add: verifyToken_issued sevenDays_def)
  show "verify env d (iat + 604800 + 1) (Encoded tok) = Inl Expired"
    unfolding tok by (simp add: verify_def verifyToken_issued sevenDays_def)
  assume "Users_findOne env (Some (Username u)) d = Inr (Some u)"
  then show "verify env d (iat + 604800 - 1) (Encoded tok) = Inr u"
    unfolding tok by (simp add: verify_def verifyToken_issued sevenDays_def)
qed

theorem token_valid_iff_signed_and_unexpired_witness:
  "(\<exists>s. verifyToken env0 2000 (Encoded aliceToken) = Inr s)
   \<and> signature aliceToken = mac env0 jwtSecret (signingInput aliceToken)
   \<and> verifyToken env0 605800 (Encoded aliceToken) = Inl Expired
   \<and> verify env0 db0 605800 (Encoded aliceToken) = Inl Expired
   \<and> generateJWTToken (mac env0) (toJSON alice) 1000 = Inr aliceToken
   \<and> verifyToken env0 605799 (Encoded aliceToken) = Inr ''alice12''
   \<and> verifyToken env0 605801 (Encoded aliceToken) = Inl Expired
   \<and> verify env0 db0 605799 (Encoded aliceToken) = Inr alice"
proof -
  have sg: "signature aliceToken = mac env0 jwtSecret (signingInput aliceToken)"
    by (simp add: aliceToken_def env0_def jwtSecret_def signingInput_def)
  have ex: "expiresAt aliceToken \<le> 605800" "(2000::int) < expiresAt aliceToken"
    by (simp_all add: aliceToken_def)
  have fo: "Users_findOne env0 (Some (Username alice)) db0 = Inr (Some alice)"
    using findOne_alice by (simp add: Username_alice)
  show ?thesis
    using token_valid_iff_signed_and_unexpired
            [where env = env0 and now = 2000 and c = "Encoded aliceToken" and t = aliceToken
               and d = db0 and u = alice and iat = 1000 and tok = aliceToken]
          token_valid_iff_signed_and_unexpired
            [where env = env0 and now = 605800 and c = "Encoded aliceToken" and t = aliceToken
               and d = db0 and u = alice and iat = 1000 and tok = aliceToken]
          sg ex fo issue_alice
    by (simp add: Username_alice)
qed

text \<open>
  Claim C3. When the bearer credential of a request is absent, or its verification fails
  as malformed, badly signed, expired or naming no stored user, the guard answers 401
  whatever handler it wraps, the store stays as it was, and so does every protected route
  of the application; and whenever verification does not succeed, the guard's result does
  not depend on the wrapped handler at all: the handler runs only after a success.
\<close>

theorem guard_rejects_before_handler:
  "(req_bearer req = None \<or>
      (\<exists>c e. req_bearer req = Some c \<and> verify env d now c = Inl e
             \<and> e \<in> {MalformedToken, BadSignature, Expired, NotFound})
    \<longrightarrow> (\<forall>h. passport_jwt env now h req d = (Some (401, Text ''Unauthorized''), d))
        \<and> (\<forall>ep. app env now ep req d = (Some (401, Text ''Unauthorized''), d)))
   \<and> ((\<forall>c u. req_bearer req = Some c \<longrightarrow> verify env d now c \<noteq> Inr u)
    \<longrightarrow> (\<forall>h h'. passport_jwt env now h req d = passport_jwt env now h' req d))"
proof (intro conjI impI allI)
  assume a: "req_bearer req = None \<or>
      (\<exists>c e. req_bearer req = Some c \<and> verify env d now c = Inl e
             \<and> e \<in> {MalformedToken, BadSignature, Expired, NotFound})"
  have g: "passport_jwt env now h req d = (Some unauthorized, d)" for h
    using a
  proof (elim disjE exE conjE)
    assume "req_bearer req = None"
    then show ?thesis by (rule passport_jwt_absent)
  next
    fix c e
    assume "req_bearer req = Some c" "verify env d now c = Inl e"
      "e \<in> {MalformedToken, BadSignature, Expired, NotFound}"
    then show ?thesis by (intro passport_jwt_rejected) auto
  qed
  show "passport_jwt env now h req d = (Some (401, Text ''Unauthorized''), d)" for h
    using g[of h] by (simp add: unauthorized_def)
  show "app env now ep req d = (Some (401, Text ''Unauthorized''), d)" for ep
    using app_guarded[of env now ep] g by (auto simp: unauthorized_def)
next
  fix h h'
  assume "\<forall>c u. req_bearer req = Some c \<longrightarrow> verify env d now c \<noteq> Inr u"
  then show "passport_jwt env now h req d = passport_jwt env now h' req d"
    by (rule passport_jwt_not_accepted)
qed

theorem guard_rejects_before_handler_witness:
  "verify env0 db0 0 (Garbled ''not.a.token'') = Inl MalformedToken
   \<and> (\<forall>h. passport_jwt env0 0 h reqGarbled db0 = (Some (401, Text ''Unauthorized''), db0))
   \<and> (\<forall>ep. app env0 0 ep reqGarbled db0 = (Some (401, Text ''Unauthorized''), db0))
   \<and> (\<forall>h h'. passport_jwt env0 0 h reqGarbled db0 = passport_jwt env0 0 h' reqGarbled db0)"
  using guard_rejects_before_handler[where req = reqGarbled and env = env0 and d = db0
      and now = 0]
  by (simp add: reqGarbled_bearer verify_garbled)

text \<open>
  Claim C4. For a request that passed the guard as identity \<open>me\<close>, updating or deleting the
  user named by a path parameter different from \<open>me\<close>'s username is answered with
  403 \<open>Permission denied\<close>, whatever the request body holds, and the store stays as it was;
  the same holds of the two handlers alone, once the identity is attached to the request.
\<close>

theorem foreign_profile_permission_denied:
  assumes "req_bearer req = Some c" and "verify env d now c = Inr me"
    and "Username me \<noteq> p"
  shows "app env now PutUser (req\<lparr>req_params := bindParams PutUser [p], req_body := b\<rparr>) d
           = (Some (403, Text ''Permission denied''), d)
       \<and> app env now DeleteUser
             (req\<lparr>req_params := bindParams DeleteUser [p], req_body := b\<rparr>) d
           = (Some (403, Text ''Permission denied''), d)
       \<and> putUser env (req\<lparr>req_params := bindParams PutUser [p], req_body := b,
                           req_user := Some me\<rparr>) d
           = (Some (403, Text ''Permission denied''), d)
       \<and> deleteUser env (req\<lparr>req_params := bindParams DeleteUser [p], req_body := b,
                              req_user := Some me\<rparr>) d
           = (Some (403, Text ''Permission denied''), d)"
  using assms
  by (simp add: passport_jwt_def putUser_def deleteUser_def map_of_bindParams)

theorem foreign_profile_permission_denied_witness:
  "app env0 2000 PutUser
       (reqAlice\<lparr>req_params := bindParams PutUser [''bob99''],
                  req_body := [(''Password'', JStr ''pwned'')]\<rparr>) db0
     = (Some (403, Text ''Permission denied''), db0)
   \<and> app env0 2000 DeleteUser
       (reqAlice\<lparr>req_params := bindParams DeleteUser [''bob99''],
                  req_body := [(''Password'', JStr ''pwned'')]\<rparr>) db0
     = (Some (403, Text ''Permission denied''), db0)"
proof -
  have v: "verify env0 db0 2000 (Encoded aliceToken) = Inr alice"
    by (rule verify_alice) simp
  have n: "Username alice \<noteq> ''bob99''" by (simp add: Username_alice)
  show ?thesis
    using foreign_profile_permission_denied[OF reqAlice_bearer v n,
        of "[(''Password'', JStr ''pwned'')]"]
    by simp
qed

text \<open>
  Claim C5, as amended. A login whose credentials are accepted is answered with 200 and a
  body holding the user and the token issued for it. A login whose credentials are
  rejected is answered with 400 and the body \<open>{message: 'Something is not right', user:
  false}\<close>: the \<open>user\<close> field is \<open>false\<close>, not \<open>null\<close>. When the store lookup itself fails the
  answer is 400 with the message alone.
\<close>

theorem login_status_and_body:
  "(authenticate env d n p = Inr u \<longrightarrow>
      (\<exists>tok. generateJWTToken (mac env) (toJSON u) now = Inr tok
           \<and> login env now d n p = Some (200, UserAndToken (JObj (toJSON u)) tok)))
   \<and> (authenticate env d n p = Inl e \<and> (\<forall>x. e \<noteq> StoreUnavailable x) \<longrightarrow>
        login env now d n p =
          Some (400, Json (JObj [(''message'', JStr ''Something is not right''),
                                 (''user'', JBool False)])))
   \<and> (authenticate env d n p = Inl (StoreUnavailable x) \<longrightarrow>
        login env now d n p =
          Some (400, Json (JObj [(''message'', JStr ''Something is not right'')])))"
proof (intro conjI impI)
  assume "authenticate env d n p = Inr u"
  then show "\<exists>tok. generateJWTToken (mac env) (toJSON u) now = Inr tok
           \<and> login env now d n p = Some (200, UserAndToken (JObj (toJSON u)) tok)"
    by (simp add: login_def passport_local_def login_callback_def generateJWTToken_toJSON)
next
  assume "authenticate env d n p = Inl e \<and> (\<forall>x. e \<noteq> StoreUnavailable x)"
  then show "login env now d n p =
          Some (400, Json (JObj [(''message'', JStr ''Something is not right''),
                                 (''user'', JBool False)]))"
    by (cases e) (simp_all add: login_def passport_local_def login_callback_def)
next
  assume "authenticate env d n p = Inl (StoreUnavailable x)"
  then show "login env now d n p =
          Some (400, Json (JObj [(''message'', JStr ''Something is not right'')]))"
    by (simp add: login_def passport_local_def login_callback_def)
qed

theorem login_status_and_body_witness:
  "login env0 1000 db0 ''alice12'' ''Secr3t!''
     = Some (200, UserAndToken (JObj (toJSON alice)) aliceToken)
   \<and> login env0 1000 db0 ''alice12'' ''wrong''
     = Some (400, Json (JObj [(''message'', JStr ''Something is not right''),
                              (''user'', JBool False)]))
   \<and> login env0 1000 dbDown ''alice12'' ''Secr3t!''
     = Some (400, Json (JObj [(''message'', JStr ''Something is not right'')]))"
  using login_status_and_body[where env = env0 and d = db0 and n = "''alice12''"
          and p = "''Secr3t!''" and u = alice and now = 1000]
        login_status_and_body[where env = env0 and d = db0 and n = "''alice12''"
          and p = "''wrong''" and e = InvalidCredentials and now = 1000]
        login_status_and_body[where env = env0 and d = dbDown and n = "''alice12''"
          and p = "''Secr3t!''" and x = "''ECONNREFUSED''" and now = 1000]
  by (simp add: authenticate_alice authenticate_wrong authenticate_down issue_alice)

text \<open>
  The claim as first stated fails: a rejected login carries \<open>user: false\<close> in its body.
\<close>

theorem login_failure_user_not_null:
  "login env0 0 db0 ''alice12'' ''wrong'' =
     Some (400, Json (JObj [(''message'', JStr ''Something is not right''),
                            (''user'', JBool False)]))
   \<and> JBool False \<noteq> JNull"
  by (simp add: login_def passport_local_def login_callback_def authenticate_def
      Users_findOne_def userFilter_def env0_def db0_def alice_def bob_def)


text \<open>
  Claim C6. On every successful login the user object of the response body and the payload
  of the issued token are both the serialised identity, which has no \<open>Password\<close> entry and
  is the same whatever hash is stored; so is the whole token, signature included.
\<close>

theorem login_excludes_password_hash:
  assumes "login env now d n p = Some (200, UserAndToken usr tok)"
  shows "\<exists>u. authenticate env d n p = Inr u
           \<and> usr = JObj (toJSON u)
           \<and> claims tok = toJSON u
           \<and> map_of (toJSON u) ''Password'' = None
           \<and> map_of (claims tok) ''Password'' = None
           \<and> (\<forall>h. toJSON (u\<lparr>Password := h\<rparr>) = toJSON u)
           \<and> (\<forall>h. generateJWTToken (mac env) (toJSON (u\<lparr>Password := h\<rparr>)) now = Inr tok)"
proof (cases "authenticate env d n p")
  case (Inl e)
  with assms show ?thesis
    by (cases e) (simp_all add: login_def passport_local_def login_callback_def)
next
  case (Inr u)
  with assms show ?thesis
    by (auto simp: login_def passport_local_def login_callback_def generateJWTToken_toJSON
        toJSON_keys toJSON_Password_update)
qed

theorem login_excludes_password_hash_witness:
  "\<exists>u. authenticate env0 db0 ''alice12'' ''Secr3t!'' = Inr u
       \<and> JObj aliceJSON = JObj (toJSON u)
       \<and> claims aliceToken = toJSON u
       \<and> map_of (toJSON u) ''Password'' = None
       \<and> map_of (claims aliceToken) ''Password'' = None
       \<and> (\<forall>h. toJSON (u\<lparr>Password := h\<rparr>) = toJSON u)
       \<and> (\<forall>h. generateJWTToken (mac env0) (toJSON (u\<lparr>Password := h\<rparr>)) 1000
                = Inr aliceToken)"
proof -
  have "login env0 1000 db0 ''alice12'' ''Secr3t!''
             = Some (200, UserAndToken (JObj (toJSON alice)) aliceToken)"
    by (simp add: login_def passport_local_def login_callback_def authenticate_alice
        issue_alice)
  then have l: "login env0 1000 db0 ''alice12'' ''Secr3t!''
             = Some (200, UserAndToken (JObj aliceJSON) aliceToken)"
    by (simp add: toJSON_alice)
  show ?thesis by (rule login_excludes_password_hash[OF l])
qed

text \<open>
  Claim C7. A login with a stored username and a password the hasher rejects, and a login
  with a username the store does not hold, are answered with the same status and the same
  body, whatever the passwords and the times of the two attempts.
\<close>

theorem login_failures_indistinguishable:
  assumes "Users_findOne env (Some n1) d = Inr (Some u)"
    and "\<not> verifyPassword env p1 (Password u)"
    and "Users_findOne env (Some n2) d = Inr None"
  shows "login env now d n1 p1 = login env now' d n2 p2
       \<and> login env now d n1 p1 =
           Some (400, Json (JObj [(''message'', JStr ''Something is not right''),
                                  (''user'', JBool False)]))"
  using assms
  by (simp add: login_def passport_local_def login_callback_def authenticate_def)

theorem login_failures_indistinguishable_witness:
  "login env0 10 db0 ''alice12'' ''wrong'' = login env0 20 db0 ''nobody'' ''Secr3t!''
   \<and> login env0 10 db0 ''alice12'' ''wrong'' =
       Some (400, Json (JObj [(''message'', JStr ''Something is not right''),
                              (''user'', JBool False)]))"
proof -
  have h: "\<not> verifyPassword env0 ''wrong'' (Password alice)"
    by (simp add: env0_sel Password_alice)
  show ?thesis
    by (rule login_failures_indistinguishable[OF findOne_alice h findOne_nobody])
qed

text \<open>
  Claim C8. The movie-by-genre and the movie-by-director handler each answer with the
  store's first movie matching one filter condition, \<open>Genre\<close> (or \<open>Director\<close>) against
  \<open>req.params.Title\<close>, or with a server error when the store call fails. Neither route
  pattern binds \<open>Title\<close>, so on every request bound by the handler's own pattern the value
  is \<open>undefined\<close>, the lookup is the one for \<open>undefined\<close>, and the result is the same for
  every requested genre, description and director; behind the guard the genre route
  answers an authenticated request with that lookup.
\<close>

theorem genre_director_query_ignores_parameter:
  "getMovieByGenre env r d =
     (case fault d of
        Some e \<Rightarrow> (Some (500, Text (''Error: '' @ e)), d)
      | None \<Rightarrow>
          (Some (200, Json (case find (movieMatches env ''Genre''
                                        (map_of (req_params r) ''Title'')) (Movies d) of
                              None \<Rightarrow> JNull | Some x \<Rightarrow> JObj x)), d))
   \<and> getMovieByDirector env r d =
     (case fault d of
        Some e \<Rightarrow> (Some (500, Text (''Error: '' @ e)), d)
      | None \<Rightarrow>
          (Some (200, Json (case find (movieMatches env ''Director''
                                        (map_of (req_params r) ''Title'')) (Movies d) of
                              None \<Rightarrow> JNull | Some x \<Rightarrow> JObj x)), d))
   \<and> map_of (bindParams GetMovieByGenre [genre, description]) ''Genre'' = Some genre
   \<and> map_of (bindParams GetMovieByGenre [genre, description]) ''Title'' = None
   \<and> map_of (bindParams GetMovieByDirector [director]) ''Director'' = Some director
   \<and> map_of (bindParams GetMovieByDirector [director]) ''Title'' = None
   \<and> movieByGenre_query (req\<lparr>req_params := bindParams GetMovieByGenre [genre, description]\<rparr>)
     = (''Genre'', None)
   \<and> movieByDirector_query (req\<lparr>req_params := bindParams GetMovieByDirector [director]\<rparr>)
     = (''Director'', None)
   \<and> getMovieByGenre env
        (req\<lparr>req_params := bindParams GetMovieByGenre [genre, description]\<rparr>) d =
     (case fault d of
        Some e \<Rightarrow> (Some (500, Text (''Error: '' @ e)), d)
      | None \<Rightarrow>
          (Some (200, Json (case find (movieMatches env ''Genre'' None) (Movies d) of
                              None \<Rightarrow> JNull | Some x \<Rightarrow> JObj x)), d))
   \<and> getMovieByDirector env (req\<lparr>req_params := bindParams GetMovieByDirector [director]\<rparr>) d =
     (case fault d of
        Some e \<Rightarrow> (Some (500, Text (''Error: '' @ e)), d)
      | None \<Rightarrow>
          (Some (200, Json (case find (movieMatches env ''Director'' None) (Movies d) of
                              None \<Rightarrow> JNull | Some x \<Rightarrow> JObj x)), d))
   \<and> getMovieByGenre env
        (req\<lparr>req_params := bindParams GetMovieByGenre [genre, description]\<rparr>) d
     = getMovieByGenre env
        (req\<lparr>req_params := bindParams GetMovieByGenre [genre', description']\<rparr>) d
   \<and> getMovieByDirector env (req\<lparr>req_params := bindParams GetMovieByDirector [director]\<rparr>) d
     = getMovieByDirector env
        (req\<lparr>req_params := bindParams GetMovieByDirector [director']\<rparr>) d
   \<and> (req_bearer req = Some c \<and> verify env d now c = Inr me \<longrightarrow>
        app env now GetMovieByGenre
          (req\<lparr>req_params := bindParams GetMovieByGenre [genre, description]\<rparr>) d =
        (case fault d of
           Some e \<Rightarrow> (Some (500, Text (''Error: '' @ e)), d)
         | None \<Rightarrow>
             (Some (200, Json (case find (movieMatches env ''Genre'' None) (Movies d) of
                                 None \<Rightarrow> JNull | Some x \<Rightarrow> JObj x)), d)))"
proof -
  have g: "getMovieByGenre env r d =
     (case fault d of
        Some e \<Rightarrow> (Some (500, Text (''Error: '' @ e)), d)
      | None \<Rightarrow>
          (Some (200, Json (case find (movieMatches env ''Genre''
                                        (map_of (req_params r) ''Title'')) (Movies d) of
                              None \<Rightarrow> JNull | Some x \<Rightarrow> JObj x)), d))" for r
    by (simp add: getMovieByGenre_def movieByGenre_query_def respondMovie_def
        Movies_findOne_def movieJSON_def serverError_def split: option.splits)
  have dr: "getMovieByDirector env r d =
     (case fault d of
        Some e \<Rightarrow> (Some (500, Text (''Error: '' @ e)), d)
      | None \<Rightarrow>
          (Some (200, Json (case find (movieMatches env ''Director''
                                        (map_of (req_params r) ''Title'')) (Movies d) of
                              None \<Rightarrow> JNull | Some x \<Rightarrow> JObj x)), d))" for r
    by (simp add: getMovieByDirector_def movieByDirector_query_def respondMovie_def
        Movies_findOne_def movieJSON_def serverError_def split: option.splits)
  have b: "map_of (bindParams GetMovieByGenre [genre, description]) ''Genre'' = Some genre"
    "map_of (bindParams GetMovieByDirector [director]) ''Director'' = Some director"
    by (simp_all add: bindParams_def)
  have a: "req_bearer req = Some c \<and> verify env d now c = Inr me \<longrightarrow>
        app env now GetMovieByGenre
          (req\<lparr>req_params := bindParams GetMovieByGenre [genre, description]\<rparr>) d =
        (case fault d of
           Some e \<Rightarrow> (Some (500, Text (''Error: '' @ e)), d)
         | None \<Rightarrow>
             (Some (200, Json (case find (movieMatches env ''Genre'' None) (Movies d) of
                                 None \<Rightarrow> JNull | Some x \<Rightarrow> JObj x)), d))"
    by (cases "fault d") (simp_all add: passport_jwt_def g map_of_bindParams)
  show ?thesis
    using a b
    by (cases "fault d")
       (simp_all add: g dr map_of_bindParams movieByGenre_query_def
          movieByDirector_query_def)
qed

theorem genre_director_query_ignores_parameter_witness:
  "getMovieByGenre env0
       (reqAlice\<lparr>req_params := bindParams GetMovieByGenre [''Thriller'', ''tense'']\<rparr>) db0
     = (Some (200, Json JNull), db0)
   \<and> getMovieByGenre env0
       (reqAlice\<lparr>req_params := bindParams GetMovieByGenre [''Comedy'', ''light'']\<rparr>) db0
     = (Some (200, Json JNull), db0)
   \<and> getMovieByDirector env0
       (reqAlice\<lparr>req_params := bindParams GetMovieByDirector [''Michael Mann'']\<rparr>) db0
     = (Some (200, Json JNull), db0)
   \<and> getMovieByDirector env0
       (reqAlice\<lparr>req_params := bindParams GetMovieByDirector [''Ridley Scott'']\<rparr>) db0
     = (Some (200, Json JNull), db0)
   \<and> app env0 2000 GetMovieByGenre
       (reqAlice\<lparr>req_params := bindParams GetMovieByGenre [''Thriller'', ''tense'']\<rparr>) db0
     = (Some (200, Json JNull), db0)"
proof -
  have v: "verify env0 db0 2000 (Encoded aliceToken) = Inr alice"
    by (rule verify_alice) simp
  have f: "fault db0 = None" "movieMatches env0 k None x = False"
    "Movies db0 = [[(''Title'', JStr ''Heat''), (''Genre'', JStr ''Thriller''),
                    (''Director'', JStr ''Michael Mann'')]]" for k x
    by (simp_all add: db0_def env0_def)
  show ?thesis
    using genre_director_query_ignores_parameter[where req = reqAlice and r = reqAlice
        and env = env0
        and d = db0 and now = 2000 and c = "Encoded aliceToken" and me = alice
        and genre = "''Thriller''" and description = "''tense''"
        and genre' = "''Comedy''" and description' = "''light''"
        and director = "''Michael Mann''" and director' = "''Ridley Scott''"]
      genre_director_query_ignores_parameter[where req = reqAlice and r = reqAlice
        and env = env0
        and d = db0 and now = 2000 and c = "Encoded aliceToken" and me = alice
        and genre = "''Comedy''" and description = "''light''"
        and genre' = "''Thriller''" and description' = "''tense''"
        and director = "''Ridley Scott''" and director' = "''Michael Mann''"]
      v reqAlice_bearer f
    by simp
qed

text \<open>
  Claim C9. The movie-by-title handler answers with the store's first movie matching the
  filter condition \<open>Title\<close> against \<open>req.params.Title\<close>, or with a server error when the
  store call fails. The pattern binds \<open>title\<close>, not \<open>Title\<close>, so on every request routed to
  \<open>GET /movies/:title\<close> the value is \<open>undefined\<close>, the lookup is the one for \<open>undefined\<close>, and
  the result is the same for every requested title; behind the guard the route answers an
  authenticated request with that lookup.
\<close>

theorem title_query_unbound_parameter:
  "getMovieByTitle env r d =
     (case fault d of
        Some e \<Rightarrow> (Some (500, Text (''Error: '' @ e)), d)
      | None \<Rightarrow>
          (Some (200, Json (case find (movieMatches env ''Title''
                                        (map_of (req_params r) ''Title'')) (Movies d) of
                              None \<Rightarrow> JNull | Some x \<Rightarrow> JObj x)), d))
   \<and> map_of (bindParams GetMovieByTitle [title]) ''title'' = Some title
   \<and> map_of (bindParams GetMovieByTitle [title]) ''Title'' = None
   \<and> movieByTitle_query (req\<lparr>req_params := bindParams GetMovieByTitle [title]\<rparr>)
     = (''Title'', None)
   \<and> getMovieByTitle env (req\<lparr>req_params := bindParams GetMovieByTitle [title]\<rparr>) d =
     (case fault d of
        Some e \<Rightarrow> (Some (500, Text (''Error: '' @ e)), d)
      | None \<Rightarrow>
          (Some (200, Json (case find (movieMatches env ''Title'' None) (Movies d) of
                              None \<Rightarrow> JNull | Some x \<Rightarrow> JObj x)), d))
   \<and> getMovieByTitle env (req\<lparr>req_params := bindParams GetMovieByTitle [title]\<rparr>) d
     = getMovieByTitle env (req\<lparr>req_params := bindParams GetMovieByTitle [title']\<rparr>) d
   \<and> (req_bearer req = Some c \<and> verify env d now c = Inr me \<longrightarrow>
        app env now GetMovieByTitle
          (req\<lparr>req_params := bindParams GetMovieByTitle [title]\<rparr>) d =
        (case fault d of
           Some e \<Rightarrow> (Some (500, Text (''Error: '' @ e)), d)
         | None \<Rightarrow>
             (Some (200, Json (case find (movieMatches env ''Title'' None) (Movies d) of
                                 None \<Rightarrow> JNull | Some x \<Rightarrow> JObj x)), d)))"
proof -
  have g: "getMovieByTitle env r d =
     (case fault d of
        Some e \<Rightarrow> (Some (500, Text (''Error: '' @ e)), d)
      | None \<Rightarrow>
          (Some (200, Json (case find (movieMatches env ''Title''
                                        (map_of (req_params r) ''Title'')) (Movies d) of
                              None \<Rightarrow> JNull | Some x \<Rightarrow> JObj x)), d))" for r
    by (simp add: getMovieByTitle_def movieByTitle_query_def respondMovie_def
        Movies_findOne_def movieJSON_def serverError_def split: option.splits)
  have b: "map_of (bindParams GetMovieByTitle [title]) ''title'' = Some title"
    by (simp add: bindParams_def)
  have a: "req_bearer req = Some c \<and> verify env d now c = Inr me \<longrightarrow>
        app env now GetMovieByTitle
          (req\<lparr>req_params := bindParams GetMovieByTitle [title]\<rparr>) d =
        (case fault d of
           Some e \<Rightarrow> (Some (500, Text (''Error: '' @ e)), d)
         | None \<Rightarrow>
             (Some (200, Json (case find (movieMatches env ''Title'' None) (Movies d) of
                                 None \<Rightarrow> JNull | Some x \<Rightarrow> JObj x)), d))"
    by (cases "fault d") (simp_all add: passport_jwt_def g map_of_bindParams)
  show ?thesis
    using a b
    by (cases "fault d") (simp_all add: g map_of_bindParams movieByTitle_query_def)
qed

theorem title_query_unbound_parameter_witness:
  "map_of (bindParams GetMovieByTitle [''Heat'']) ''title'' = Some ''Heat''
   \<and> getMovieByTitle env0 (reqAlice\<lparr>req_params := bindParams GetMovieByTitle [''Heat'']\<rparr>) db0
     = (Some (200, Json JNull), db0)
   \<and> getMovieByTitle env0 (reqAlice\<lparr>req_params := bindParams GetMovieByTitle [''Alien'']\<rparr>) db0
     = (Some (200, Json JNull), db0)
   \<and> app env0 2000 GetMovieByTitle
       (reqAlice\<lparr>req_params := bindParams GetMovieByTitle [''Heat'']\<rparr>) db0
     = (Some (200, Json JNull), db0)"
proof -
  have v: "verify env0 db0 2000 (Encoded aliceToken) = Inr alice"
    by (rule verify_alice) simp
  have f: "fault db0 = None" "movieMatches env0 k None x = False"
    "Movies db0 = [[(''Title'', JStr ''Heat''), (''Genre'', JStr ''Thriller''),
                    (''Director'', JStr ''Michael Mann'')]]" for k x
    by (simp_all add: db0_def env0_def)
  show ?thesis
    using title_query_unbound_parameter[where req = reqAlice and r = reqAlice
        and env = env0 and d = db0
        and now = 2000 and c = "Encoded aliceToken" and me = alice
        and title = "''Heat''" and title' = "''Alien''"]
      title_query_unbound_parameter[where req = reqAlice and r = reqAlice
        and env = env0 and d = db0
        and now = 2000 and c = "Encoded aliceToken" and me = alice
        and title = "''Alien''" and title' = "''Heat''"]
      v reqAlice_bearer f
    by simp
qed

text \<open>
  Claim C10. For an authenticated request to \<open>DELETE /users/:Username/movies/:MovieId\<close>
  naming a stored user, the handler answers with that user's record and removes the record
  from the store: the store holds one record fewer, which is not what pulling the movie
  identifier from the favourites would leave, and, usernames being unique, no record of
  that username, hence none of its fields, remains.
\<close>

theorem deleteFavorite_removes_user_record:
  assumes "req_bearer req = Some c" and "verify env d now c = Inr me"
    and "Users_findOne env (Some name) d = Inr (Some u)"
  shows "app env now DeleteFavorite
           (req\<lparr>req_params := bindParams DeleteFavorite [name, movieId]\<rparr>) d
         = (Some (200, Json (JObj (toJSON u))),
            d\<lparr>Users := removeFirst (\<lambda>x. Username x = name) (Users d)\<rparr>)
       \<and> Suc (length (removeFirst (\<lambda>x. Username x = name) (Users d))) = length (Users d)
       \<and> removeFirst (\<lambda>x. Username x = name) (Users d)
           \<noteq> updateFirst (\<lambda>x. Username x = name) (pullFavorite movieId) (Users d)
       \<and> (distinct (map Username (Users d)) \<longrightarrow>
            (\<forall>x \<in> set (removeFirst (\<lambda>x. Username x = name) (Users d)).
               Username x \<noteq> name))"
proof -
  from assms(3) have up: "fault d = None"
    and f: "find (\<lambda>x. Username x = name) (Users d) = Some u"
    by (auto simp: Users_findOne_def userFilter_Some split: option.splits)
  have 1: "app env now DeleteFavorite
           (req\<lparr>req_params := bindParams DeleteFavorite [name, movieId]\<rparr>) d
         = (Some (200, Json (JObj (toJSON u))),
            d\<lparr>Users := removeFirst (\<lambda>x. Username x = name) (Users d)\<rparr>)"
    using assms(1,2) up f
    by (simp add: passport_jwt_def deleteFavorite_def Users_findOneAndRemove_def
        userFilter_Some docJSON_def map_of_bindParams)
  have 2: "Suc (length (removeFirst (\<lambda>x. Username x = name) (Users d))) = length (Users d)"
    using f by (rule length_removeFirst)
  have 3: "removeFirst (\<lambda>x. Username x = name) (Users d)
           \<noteq> updateFirst (\<lambda>x. Username x = name) (pullFavorite movieId) (Users d)"
  proof
    assume "removeFirst (\<lambda>x. Username x = name) (Users d)
           = updateFirst (\<lambda>x. Username x = name) (pullFavorite movieId) (Users d)"
    then have "length (removeFirst (\<lambda>x. Username x = name) (Users d)) = length (Users d)"
      by (simp add: length_updateFirst)
    with 2 show False by simp
  qed
  have 4: "distinct (map Username (Users d)) \<longrightarrow>
            (\<forall>x \<in> set (removeFirst (\<lambda>x. Username x = name) (Users d)).
               Username x \<noteq> name)"
    using f removeFirst_distinct_gone[of Username "Users d" name u] by blast
  show ?thesis by (rule conjI[OF 1 conjI[OF 2 conjI[OF 3 4]]])
qed

theorem deleteFavorite_removes_user_record_witness:
  "app env0 2000 DeleteFavorite
       (reqAlice\<lparr>req_params := bindParams DeleteFavorite [''alice12'', ''m1'']\<rparr>) db0
     = (Some (200, Json (JObj aliceJSON)), db0\<lparr>Users := [bob]\<rparr>)
   \<and> updateFirst (\<lambda>x. Username x = ''alice12'') (pullFavorite ''m1'') (Users db0)
     = [alice\<lparr>FavoriteMovies := []\<rparr>, bob]
   \<and> Username bob \<noteq> ''alice12''"
proof -
  have v: "verify env0 db0 2000 (Encoded aliceToken) = Inr alice"
    by (rule verify_alice) simp
  have r: "removeFirst (\<lambda>x. Username x = ''alice12'') (Users db0) = [bob]"
    by (simp add: db0_def Username_alice)
  have dist: "distinct (map Username (Users db0))"
    by (simp add: db0_def alice_def bob_def)
  have p: "updateFirst (\<lambda>x. Username x = ''alice12'') (pullFavorite ''m1'') (Users db0)
     = [alice\<lparr>FavoriteMovies := []\<rparr>, bob]"
    by (simp add: db0_def pullFavorite_def alice_def)
  show ?thesis
    using deleteFavorite_removes_user_record[OF reqAlice_bearer v findOne_alice, of "''m1''"]
      dist p
    by (simp add: r toJSON_alice)
qed

end
